theory Spec2Isabelle
  imports Main "HOL-Library.Sublist"
begin

section \<open>Go values used by the reconciliation engine\<close>

subsection \<open>Errors and panics\<close>

text \<open>
  A Go \<open>error\<close> is an interface value and may be \<open>nil\<close>: the model writes
  \<open>error option\<close>, \<open>None\<close> for \<open>nil\<close>. Three kinds of error value occur in the
  code: the ones built by \<open>fmt.Errorf\<close>, the API status errors of the Kubernetes
  client (they carry a reason), and the ones built by \<open>errors.Wrap\<close> and
  \<open>errors.Wrapf\<close> of \<open>github.com/pkg/errors\<close>, which annotate the error they are given.
\<close>

datatype StatusReason =
    StatusReasonUnknown
  | StatusReasonNotFound
  | StatusReasonAlreadyExists
  | StatusReasonConflict
  | StatusReasonForbidden
  | StatusReasonServerTimeout

datatype error =
    Errorf string
  | StatusError StatusReason string
  | Wrapped error string

text \<open>
  \<open>apierrors.IsNotFound(err)\<close>: the reason of an API status error is compared with
  \<open>StatusReasonNotFound\<close>; every other error value, \<open>nil\<close> included, has the
  reason unknown.
\<close>

fun ReasonForError :: "error option \<Rightarrow> StatusReason" where
  "ReasonForError (Some (StatusError r m)) = r"
| "ReasonForError e = StatusReasonUnknown"

definition IsNotFound :: "error option \<Rightarrow> bool" where
  "IsNotFound err = (ReasonForError err = StatusReasonNotFound)"

text \<open>
  \<open>errors.Wrap(err, msg)\<close> and \<open>errors.Wrapf(err, format, args...)\<close>: the result is
  \<open>nil\<close> when \<open>err\<close> is \<open>nil\<close>, and otherwise a new error that annotates
  \<open>err\<close> with the message. The message passed to \<open>Wrapf\<close> below is already
  formatted.
\<close>

fun Wrap :: "error option \<Rightarrow> string \<Rightarrow> error option" where
  "Wrap None msg = None"
| "Wrap (Some e) msg = Some (Wrapped e msg)"

definition Wrapf :: "error option \<Rightarrow> string \<Rightarrow> error option" where
  "Wrapf err msg = Wrap err msg"

text \<open>The format \<open>prefix '%s'\<close> applied to a string.\<close>

definition quoted :: "string \<Rightarrow> string \<Rightarrow> string" where
  "quoted pre s = pre @ [CHR 0x27] @ s @ [CHR 0x27]"

text \<open>
  The run-time panics that the code under study can raise by itself: the call of a
  \<open>nil\<close> func value and the dereference of a \<open>nil\<close> pointer.
\<close>

datatype panic = NilFuncCall | NilPointerDereference

subsection \<open>Unstructured objects\<close>

text \<open>
  \<open>unstructured.Unstructured\<close> is a tree of JSON values; the code reads its name and
  namespace (\<open>GetName\<close>, \<open>GetNamespace\<close>, which give the empty string when the field
  is absent) and hands the rest on. A \<open>*unstructured.Unstructured\<close> may be \<open>nil\<close>:
  the model writes \<open>Unstructured option\<close>.
\<close>

record Unstructured =
  apiVersion :: string
  kind :: string
  name :: string
  namespace :: string
  labels :: "(string \<times> string) list"
  annotations :: "(string \<times> string) list"
  content :: string

record GroupVersionResource =
  Group :: string
  Version :: string
  Resource :: string

record GetOptions =
  ResourceVersion :: string

definition emptyGetOptions :: GetOptions where
  "emptyGetOptions = \<lparr>ResourceVersion = []\<rparr>"

subsection \<open>strings.TrimSpace\<close>

text \<open>
  A Go string is a sequence of bytes. \<open>strings.TrimSpace\<close> removes, at both ends,
  the code points for which \<open>unicode.IsSpace\<close> holds, decoding UTF-8; a byte
  sequence that is not the encoding of such a code point stops the trimming. The list
  holds the UTF-8 encodings of these code points: U+0009 to U+000D, U+0020, U+0085,
  U+00A0, U+1680, U+2000 to U+200A, U+2028, U+2029, U+202F, U+205F and U+3000.
\<close>

definition spaceRunes :: "string list" where
  "spaceRunes =
    [[CHR 0x09], [CHR 0x0A], [CHR 0x0B], [CHR 0x0C], [CHR 0x0D], [CHR 0x20],
     [CHR 0xC2, CHR 0x85], [CHR 0xC2, CHR 0xA0],
     [CHR 0xE1, CHR 0x9A, CHR 0x80],
     [CHR 0xE2, CHR 0x80, CHR 0x80], [CHR 0xE2, CHR 0x80, CHR 0x81],
     [CHR 0xE2, CHR 0x80, CHR 0x82], [CHR 0xE2, CHR 0x80, CHR 0x83],
     [CHR 0xE2, CHR 0x80, CHR 0x84], [CHR 0xE2, CHR 0x80, CHR 0x85],
     [CHR 0xE2, CHR 0x80, CHR 0x86], [CHR 0xE2, CHR 0x80, CHR 0x87],
     [CHR 0xE2, CHR 0x80, CHR 0x88], [CHR 0xE2, CHR 0x80, CHR 0x89],
     [CHR 0xE2, CHR 0x80, CHR 0x8A],
     [CHR 0xE2, CHR 0x80, CHR 0xA8], [CHR 0xE2, CHR 0x80, CHR 0xA9],
     [CHR 0xE2, CHR 0x80, CHR 0xAF],
     [CHR 0xE2, CHR 0x81, CHR 0x9F],
     [CHR 0xE3, CHR 0x80, CHR 0x80]]"

text \<open>The number of bytes of the space code point a string starts with, 0 when it starts with none.\<close>

fun spaceWidth :: "string list \<Rightarrow> string \<Rightarrow> nat" where
  "spaceWidth [] s = 0"
| "spaceWidth (r # rs) s = (if take (length r) s = r then length r else spaceWidth rs s)"

fun trimLeft :: "string list \<Rightarrow> nat \<Rightarrow> string \<Rightarrow> string" where
  "trimLeft rs 0 s = s"
| "trimLeft rs (Suc n) s =
     (if spaceWidth rs s = 0 then s else trimLeft rs n (drop (spaceWidth rs s) s))"

text \<open>
  Each step of the trimming removes at least one byte, so \<open>length s\<close> steps are
  enough. The right end is trimmed on the reversed string with the reversed
  encodings.
\<close>

definition TrimLeftSpace :: "string \<Rightarrow> string" where
  "TrimLeftSpace s = trimLeft spaceRunes (length s) s"

definition TrimRightSpace :: "string \<Rightarrow> string" where
  "TrimRightSpace s = rev (trimLeft (map rev spaceRunes) (length s) (rev s))"

definition TrimSpace :: "string \<Rightarrow> string" where
  "TrimSpace s = TrimRightSpace (TrimLeftSpace s)"

section \<open>The mutation pipeline\<close>

text \<open>
  \<open>type UnstructuredMiddleware func(given *Unstructured) (updated *Unstructured)\<close>.
  The call of a Go func value returns or panics, so a func value is modelled by the
  function from its argument to \<open>panic + result\<close>. \<open>UnstructuredUpdater\<close> never
  compares a middleware with \<open>nil\<close>; the \<open>nil\<close> func value is therefore the
  middleware that panics when it is called.
\<close>

type_synonym 'a UnstructuredMiddleware = "'a \<Rightarrow> panic + 'a"

definition nilMiddleware :: "'a UnstructuredMiddleware" where
  "nilMiddleware given = Inl NilFuncCall"

text \<open>
  \<^verbatim>\<open>
  func UnstructuredUpdater(updaters []UnstructuredMiddleware) UnstructuredMiddleware {
      return func(given *unstructured.Unstructured) *unstructured.Unstructured {
          for _, u := range updaters {
              given = u(given)
          }
          return given
      }
  }
  \<close>
  A panic of a stage ends the loop and is the panic of the composed middleware.
\<close>

fun UnstructuredUpdater :: "'a UnstructuredMiddleware list \<Rightarrow> 'a UnstructuredMiddleware" where
  "UnstructuredUpdater [] given = Inr given"
| "UnstructuredUpdater (u # updaters) given =
     (case u given of
        Inl p \<Rightarrow> Inl p
      | Inr updated \<Rightarrow> UnstructuredUpdater updaters updated)"

text \<open>
  Calling a middleware on the outcome of an earlier call: a panic of the earlier call
  is the outcome.
\<close>

definition andThen :: "panic + 'a \<Rightarrow> 'a UnstructuredMiddleware \<Rightarrow> panic + 'a" where
  "andThen r u = (case r of Inl p \<Rightarrow> Inl p | Inr given \<Rightarrow> u given)"

text \<open>A Go function that returns and does not panic, as a middleware.\<close>

definition pureMiddleware :: "('a \<Rightarrow> 'a) \<Rightarrow> 'a UnstructuredMiddleware" where
  "pureMiddleware f given = Inr (f given)"

section \<open>Calls of injected functions\<close>

text \<open>
  The functions the engine is given (the store primitives, the collaborators of the
  installer) act on the world outside the program: the remote store, the process
  environment. The model threads that world, of an arbitrary type \<open>'w\<close>, through
  every call, and keeps beside it the list of the calls the code has made, in order,
  so that "is invoked exactly once" and "is never invoked" are statements about that
  list. The call of an injected func value returns or panics.
\<close>

record Artifact =
  Doc :: string
  GroupVersionResource :: GroupVersionResource

record ArtifactList =
  Items :: "Artifact option list"

datatype call =
    GetterCall string GetOptions "string list"
  | CreatorCall "Unstructured option" "string list"
  | UpdaterCall "Unstructured option" "string list"
  | ConfigGetterCall string
  | ArtifactListerCall string
  | TransformerCall ArtifactList
  | MiddlewareCall "Unstructured option"
  | ApplierCall "Unstructured option"

record 'w state =
  world :: 'w
  calls :: "call list"

definition invoke :: "call \<Rightarrow> ('w \<Rightarrow> 'r \<times> 'w) \<Rightarrow> 'w state \<Rightarrow> 'r \<times> 'w state" where
  "invoke c f s =
     (case f (world s) of (r, w) \<Rightarrow> (r, \<lparr>world = w, calls = calls s @ [c]\<rparr>))"

section \<open>The resource applier\<close>

type_synonym 'w ResourceCreator =
  "Unstructured option \<Rightarrow> string list \<Rightarrow> 'w \<Rightarrow> (panic + Unstructured option \<times> error option) \<times> 'w"

type_synonym 'w ResourceGetter =
  "string \<Rightarrow> GetOptions \<Rightarrow> string list \<Rightarrow> 'w \<Rightarrow> (panic + Unstructured option \<times> error option) \<times> 'w"

type_synonym 'w ResourceUpdater =
  "Unstructured option \<Rightarrow> string list \<Rightarrow> 'w \<Rightarrow> (panic + Unstructured option \<times> error option) \<times> 'w"

text \<open>
  The three fields are compared with \<open>nil\<close> by the applier, so each is an option.
\<close>

record 'w ResourceApplyOptions =
  Getter :: "'w ResourceGetter option"
  Creator :: "'w ResourceCreator option"
  Updater :: "'w ResourceUpdater option"

type_synonym 'w ResourceApplier =
  "Unstructured option \<Rightarrow> string list \<Rightarrow> 'w state
     \<Rightarrow> (panic + Unstructured option \<times> error option) \<times> 'w state"

text \<open>
  \<^verbatim>\<open>
  func newResourceApplier(options ResourceApplyOptions) ResourceApplier {
    return func(obj *unstructured.Unstructured, subresources ...string)
           (resource *unstructured.Unstructured, err error) {
      if options.Getter == nil {
        err = fmt.Errorf("nil resource getter instance: failed to apply resource")
        return
      }
      if options.Creator == nil {
        err = fmt.Errorf("nil resource creator instance: failed to apply resource")
        return
      }
      if options.Updater == nil {
        err = fmt.Errorf("nil resource updater instance: failed to apply resource")
        return
      }
      if obj == nil {
        err = fmt.Errorf("nil resource instance: failed to apply resource")
        return
      }
      resource, err = options.Getter(obj.GetName(), metav1.GetOptions{})
      if apierrors.IsNotFound(err) {
        // create if not found
        return options.Creator(obj, subresources...)
      } else {
        // some genuine error at kubernetes server
        err = errors.Wrapf(err, "failed to apply resource '%s'", obj.GetName())
        return
      }
      return options.Updater(obj, subresources...)
    }
  }
  \<close>
  Both branches of the conditional return, so the last statement is never reached;
  the model has no branch for it. The constructor itself only builds the closure: it
  is the partial application \<open>newResourceApplier options\<close>.
\<close>

definition newResourceApplier :: "'w ResourceApplyOptions \<Rightarrow> 'w ResourceApplier" where
  "newResourceApplier options obj subresources s =
     (case Getter options of
        None \<Rightarrow>
          (Inr (None, Some (Errorf ''nil resource getter instance: failed to apply resource'')), s)
      | Some getter \<Rightarrow>
     (case Creator options of
        None \<Rightarrow>
          (Inr (None, Some (Errorf ''nil resource creator instance: failed to apply resource'')), s)
      | Some creator \<Rightarrow>
     (case Updater options of
        None \<Rightarrow>
          (Inr (None, Some (Errorf ''nil resource updater instance: failed to apply resource'')), s)
      | Some updater \<Rightarrow>
     (case obj of
        None \<Rightarrow>
          (Inr (None, Some (Errorf ''nil resource instance: failed to apply resource'')), s)
      | Some ob \<Rightarrow>
     (case invoke (GetterCall (name ob) emptyGetOptions [])
                  (getter (name ob) emptyGetOptions []) s of
        (Inl p, s1) \<Rightarrow> (Inl p, s1)
      | (Inr (resource, err), s1) \<Rightarrow>
          if IsNotFound err
          then invoke (CreatorCall obj subresources) (creator obj subresources) s1
          else (Inr (resource, Wrapf err (quoted ''failed to apply resource '' (name ob))), s1))))))"

subsection \<open>The primitives against the cluster\<close>

text \<open>
  \<open>NewDynamicGetter\<close> and the dynamic client it returns are not among the sources
  studied here; they are parameters of the model. \<open>NewDynamicGetter()()\<close> returns a
  client (an interface value, which may be \<open>nil\<close>) and an error;
  \<open>dynamic.Resource(gvr).Namespace(namespace)\<close> followed by \<open>Get\<close>, \<open>Create\<close> or
  \<open>Update\<close> is one function of the client, of the resource type, the namespace
  and the arguments of the call.
\<close>

record 'w Dynamic =
  Get :: "GroupVersionResource \<Rightarrow> string \<Rightarrow> string \<Rightarrow> GetOptions \<Rightarrow> string list
            \<Rightarrow> 'w \<Rightarrow> (Unstructured option \<times> error option) \<times> 'w"
  Create :: "GroupVersionResource \<Rightarrow> string \<Rightarrow> Unstructured \<Rightarrow> string list
            \<Rightarrow> 'w \<Rightarrow> (Unstructured option \<times> error option) \<times> 'w"
  Update :: "GroupVersionResource \<Rightarrow> string \<Rightarrow> Unstructured \<Rightarrow> string list
            \<Rightarrow> 'w \<Rightarrow> (Unstructured option \<times> error option) \<times> 'w"

type_synonym 'w DynamicGetter = "'w \<Rightarrow> ('w Dynamic option \<times> error option) \<times> 'w"

text \<open>
  \<^verbatim>\<open>
  func NewResourceCreator(gvr schema.GroupVersionResource, namespace string) ResourceCreator {
    return func(obj *unstructured.Unstructured, subresources ...string) (*unstructured.Unstructured, error) {
      if obj == nil {
        return nil, fmt.Errorf("nil resource instance: failed to create resource")
      }
      dynamic, err := NewDynamicGetter()()
      if err != nil {
        return nil, errors.Wrap(err, "failed to create resource")
      }
      return dynamic.Resource(gvr).Namespace(namespace).Create(obj, subresources...)
    }
  }
  \<close>
  A method call on a \<open>nil\<close> client panics.
\<close>

definition NewResourceCreator ::
  "'w DynamicGetter \<Rightarrow> GroupVersionResource \<Rightarrow> string \<Rightarrow> 'w ResourceCreator" where
  "NewResourceCreator NewDynamicGetter gvr ns obj subresources w =
     (case obj of
        None \<Rightarrow> (Inr (None, Some (Errorf ''nil resource instance: failed to create resource'')), w)
      | Some ob \<Rightarrow>
     (case NewDynamicGetter w of
        ((dynamic, err), w1) \<Rightarrow>
          if err \<noteq> None then (Inr (None, Wrap err ''failed to create resource''), w1)
          else (case dynamic of
                  None \<Rightarrow> (Inl NilPointerDereference, w1)
                | Some d \<Rightarrow>
                    (case Create d gvr ns ob subresources w1 of (r, w2) \<Rightarrow> (Inr r, w2)))))"

text \<open>
  \<^verbatim>\<open>
  func NewResourceGetter(gvr schema.GroupVersionResource, namespace string) ResourceGetter {
    return func(name string, options metav1.GetOptions, subresources ...string) (*unstructured.Unstructured, error) {
      if len(strings.TrimSpace(name)) == 0 {
        return nil, fmt.Errorf("missing resource name: failed to get resource")
      }
      dynamic, err := NewDynamicGetter()()
      if err != nil {
        return nil, errors.Wrapf(err, "failed to get resource '%s'", name)
      }
      return dynamic.Resource(gvr).Namespace(namespace).Get(name, options, subresources...)
    }
  }
  \<close>
\<close>

definition NewResourceGetter ::
  "'w DynamicGetter \<Rightarrow> GroupVersionResource \<Rightarrow> string \<Rightarrow> 'w ResourceGetter" where
  "NewResourceGetter NewDynamicGetter gvr ns nm options subresources w =
     (if length (TrimSpace nm) = 0
      then (Inr (None, Some (Errorf ''missing resource name: failed to get resource'')), w)
      else
     (case NewDynamicGetter w of
        ((dynamic, err), w1) \<Rightarrow>
          if err \<noteq> None then (Inr (None, Wrapf err (quoted ''failed to get resource '' nm)), w1)
          else (case dynamic of
                  None \<Rightarrow> (Inl NilPointerDereference, w1)
                | Some d \<Rightarrow>
                    (case Get d gvr ns nm options subresources w1 of (r, w2) \<Rightarrow> (Inr r, w2)))))"

text \<open>
  \<^verbatim>\<open>
  func NewResourceUpdater(gvr schema.GroupVersionResource, namespace string) ResourceUpdater {
    return func(obj *unstructured.Unstructured, subresources ...string) (*unstructured.Unstructured, error) {
      if obj == nil {
        return nil, fmt.Errorf("nil resource instance: failed to update resource")
      }
      dynamic, err := NewDynamicGetter()()
      if err != nil {
        return nil, errors.Wrapf(err, "failed to update resource '%s'", obj.GetName())
      }
      return dynamic.Resource(gvr).Namespace(namespace).Update(obj, subresources...)
    }
  }
  \<close>
\<close>

definition NewResourceUpdater ::
  "'w DynamicGetter \<Rightarrow> GroupVersionResource \<Rightarrow> string \<Rightarrow> 'w ResourceUpdater" where
  "NewResourceUpdater NewDynamicGetter gvr ns obj subresources w =
     (case obj of
        None \<Rightarrow> (Inr (None, Some (Errorf ''nil resource instance: failed to update resource'')), w)
      | Some ob \<Rightarrow>
     (case NewDynamicGetter w of
        ((dynamic, err), w1) \<Rightarrow>
          if err \<noteq> None
          then (Inr (None, Wrapf err (quoted ''failed to update resource '' (name ob))), w1)
          else (case dynamic of
                  None \<Rightarrow> (Inl NilPointerDereference, w1)
                | Some d \<Rightarrow>
                    (case Update d gvr ns ob subresources w1 of (r, w2) \<Rightarrow> (Inr r, w2)))))"

text \<open>
  \<^verbatim>\<open>
  func NewResourceApplier(gvr schema.GroupVersionResource, namespace string) ResourceApplier {
    options := ResourceApplyOptions{
      Getter:  NewResourceGetter(gvr, namespace),
      Creator: NewResourceCreator(gvr, namespace),
      Updater: NewResourceUpdater(gvr, namespace),
    }
    return newResourceApplier(options)
  }
  \<close>
\<close>

definition NewResourceApplier ::
  "'w DynamicGetter \<Rightarrow> GroupVersionResource \<Rightarrow> string \<Rightarrow> 'w ResourceApplier" where
  "NewResourceApplier NewDynamicGetter gvr ns =
     newResourceApplier
       \<lparr>Getter = Some (NewResourceGetter NewDynamicGetter gvr ns),
        Creator = Some (NewResourceCreator NewDynamicGetter gvr ns),
        Updater = Some (NewResourceUpdater NewDynamicGetter gvr ns)\<rparr>"

section \<open>The installer\<close>

text \<open>
  The declarations of the install configuration, of the three collaborator types and
  of the helpers \<open>env.Get\<close>, \<open>EnvKeyForInstallConfigName\<close>,
  \<open>WithInstallUnstructuredUpdaterList\<close> and \<open>GroupVersionResourceFromGVK\<close> are not
  among the sources studied here. Of an entry of \<open>config.Spec.Install\<close> the installer
  reads the version; the configuration is returned through a pointer, which may be
  \<open>nil\<close>. The helpers are parameters of the model, and so is the type \<open>'u\<close> of the
  elements of \<open>unstructuredUpdaters\<close>, which the installer only hands to
  \<open>WithInstallUnstructuredUpdaterList\<close>.
\<close>

record InstallEntry =
  Install_Version :: string

record InstallConfig =
  Spec_Install :: "InstallEntry list"

type_synonym 'w ConfigGetterFunc =
  "string \<Rightarrow> 'w \<Rightarrow> (panic + InstallConfig option \<times> error option) \<times> 'w"

type_synonym 'w VersionArtifactLister =
  "string \<Rightarrow> 'w \<Rightarrow> (panic + ArtifactList \<times> error option) \<times> 'w"

type_synonym 'w ArtifactToUnstructuredListTransformer =
  "ArtifactList \<Rightarrow> 'w \<Rightarrow> (panic + Unstructured option list \<times> error option list) \<times> 'w"

record ('w, 'u) helpers =
  envGet :: "string \<Rightarrow> string"
  EnvKeyForInstallConfigName :: string
  WithInstallUnstructuredUpdaterList ::
    "InstallEntry \<Rightarrow> 'u list \<Rightarrow> Unstructured option UnstructuredMiddleware list"
  GroupVersionResourceFromGVK :: "Unstructured \<Rightarrow> GroupVersionResource"
  NewDynamicGetter :: "'w DynamicGetter"

text \<open>
  \<^verbatim>\<open>
  type installErrors struct {
    errors []error
  }
  func (i *installErrors) addError(err error) []error {
    i.errors = append(i.errors, err)
    return i.errors
  }
  func (i *installErrors) addErrors(errs []error) []error {
    for _, err := range errs {
      i.addError(err)
    }
    return i.errors
  }
  \<close>
  A method with a pointer receiver returns its result and the receiver as updated.
  An element of \<open>[]error\<close> may be \<open>nil\<close>.
\<close>

record installErrors =
  errors :: "error option list"

definition addError ::
  "error option \<Rightarrow> 'z installErrors_scheme \<Rightarrow> error option list \<times> 'z installErrors_scheme" where
  "addError err i = (errors i @ [err], i\<lparr>errors := errors i @ [err]\<rparr>)"

fun addErrors ::
  "error option list \<Rightarrow> 'z installErrors_scheme \<Rightarrow> error option list \<times> 'z installErrors_scheme" where
  "addErrors [] i = (errors i, i)"
| "addErrors (err # errs) i = addErrors errs (snd (addError err i))"

text \<open>
  \<^verbatim>\<open>
  type simpleInstaller struct {
    configGetter         ConfigGetterFunc
    artifactLister       VersionArtifactLister
    transformer          ArtifactToUnstructuredListTransformer
    unstructuredUpdaters []WithInstallUnstructuredUpdater
    installErrors
  }
  \<close>
  \<open>Install\<close> compares \<open>configGetter\<close> with \<open>nil\<close> and calls the other two
  collaborators as they are.
\<close>

record ('w, 'u) simpleInstaller = installErrors +
  configGetter :: "'w ConfigGetterFunc option"
  artifactLister :: "'w VersionArtifactLister"
  transformer :: "'w ArtifactToUnstructuredListTransformer"
  unstructuredUpdaters :: "'u list"

definition nilArtifactLister :: "'w VersionArtifactLister" where
  "nilArtifactLister version w = (Inl NilFuncCall, w)"

definition nilTransformer :: "'w ArtifactToUnstructuredListTransformer" where
  "nilTransformer list w = (Inl NilFuncCall, w)"

text \<open>
  The loop that overrides the unstructured instances of one install entry:
  \<^verbatim>\<open>
      for _, unstruct := range unstructs {
        installUpdaters := WithInstallUnstructuredUpdaterList(install, i.unstructuredUpdaters)
        finalUpdater := k8s.UnstructuredUpdater(installUpdaters)
        allUnstructured = append(allUnstructured, finalUpdater(unstruct))
      }
  \<close>
\<close>

fun Install_override ::
  "('w, 'u) helpers \<Rightarrow> InstallEntry \<Rightarrow> 'u list \<Rightarrow> Unstructured option list
     \<Rightarrow> Unstructured option list \<Rightarrow> 'w state \<Rightarrow> (panic + Unstructured option list) \<times> 'w state" where
  "Install_override h install updaters [] allUnstructured s = (Inr allUnstructured, s)"
| "Install_override h install updaters (unstruct # unstructs) allUnstructured s =
     (let installUpdaters = WithInstallUnstructuredUpdaterList h install updaters;
          finalUpdater = UnstructuredUpdater installUpdaters
      in case invoke (MiddlewareCall unstruct) (\<lambda>w. (finalUpdater unstruct, w)) s of
           (Inl p, s1) \<Rightarrow> (Inl p, s1)
         | (Inr updated, s1) \<Rightarrow>
             Install_override h install updaters unstructs (allUnstructured @ [updated]) s1)"

text \<open>
  The loop over the install entries:
  \<^verbatim>\<open>
    for _, install := range config.Spec.Install {
      list, err := i.artifactLister(install.Version)
      if err != nil {
        i.addError(errors.Wrapf(err, "simple installer failed to list artifacts for version '%s'", install.Version))
        continue
      }
      // transform list of artifacts to list of unstructured instances
      unstructs, errs := i.transformer(list)
      if len(errs) != 0 {
        i.addErrors(errs)
      }
      // override the unstructured instances from install set options
      for _, unstruct := range unstructs { ... }
    }
  \<close>
\<close>

fun Install_entries ::
  "('w, 'u) helpers \<Rightarrow> InstallEntry list \<Rightarrow> Unstructured option list \<Rightarrow> ('w, 'u) simpleInstaller
     \<Rightarrow> 'w state \<Rightarrow> (panic + Unstructured option list) \<times> ('w, 'u) simpleInstaller \<times> 'w state" where
  "Install_entries h [] allUnstructured i s = (Inr allUnstructured, i, s)"
| "Install_entries h (install # installs) allUnstructured i s =
     (case invoke (ArtifactListerCall (Install_Version install))
                  (artifactLister i (Install_Version install)) s of
        (Inl p, s1) \<Rightarrow> (Inl p, i, s1)
      | (Inr (list, err), s1) \<Rightarrow>
          if err \<noteq> None
          then Install_entries h installs allUnstructured
                 (snd (addError
                    (Wrapf err (quoted ''simple installer failed to list artifacts for version ''
                                  (Install_Version install))) i)) s1
          else
         (case invoke (TransformerCall list) (transformer i list) s1 of
            (Inl p, s2) \<Rightarrow> (Inl p, i, s2)
          | (Inr (unstructs, errs), s2) \<Rightarrow>
              (let i2 = (if length errs \<noteq> 0 then snd (addErrors errs i) else i)
               in case Install_override h install (unstructuredUpdaters i2) unstructs
                         allUnstructured s2 of
                    (Inl p, s3) \<Rightarrow> (Inl p, i2, s3)
                  | (Inr allUnstructured2, s3) \<Rightarrow>
                      Install_entries h installs allUnstructured2 i2 s3)))"

text \<open>
  The loop that applies the instances:
  \<^verbatim>\<open>
    for _, unstruct := range allUnstructured {
      apply := k8s.NewResourceApplier(GroupVersionResourceFromGVK(unstruct), unstruct.GetNamespace())
      _, err := apply(unstruct)
      i.addError(err)
    }
  \<close>
  \<open>GetNamespace\<close> reads a field of its receiver, so a \<open>nil\<close> instance panics before
  the applier is built.
\<close>

fun Install_apply ::
  "('w, 'u) helpers \<Rightarrow> Unstructured option list \<Rightarrow> ('w, 'u) simpleInstaller \<Rightarrow> 'w state
     \<Rightarrow> panic option \<times> ('w, 'u) simpleInstaller \<times> 'w state" where
  "Install_apply h [] i s = (None, i, s)"
| "Install_apply h (unstruct # rest) i s =
     (case unstruct of
        None \<Rightarrow> (Some NilPointerDereference, i, s)
      | Some u \<Rightarrow>
          (let apply = NewResourceApplier (NewDynamicGetter h)
                         (GroupVersionResourceFromGVK h u) (namespace u)
           in case apply unstruct [] (s\<lparr>calls := calls s @ [ApplierCall unstruct]\<rparr>) of
                (Inl p, s1) \<Rightarrow> (Some p, i, s1)
              | (Inr (resource, err), s1) \<Rightarrow> Install_apply h rest (snd (addError err i)) s1))"

text \<open>
  \<^verbatim>\<open>
  func (i *simpleInstaller) Install() []error {
    var (
      allUnstructured []*unstructured.Unstructured
    )
    if i.configGetter == nil {
      return i.addError(fmt.Errorf("nil config getter: simple installer failed"))
    }
    config, err := i.configGetter(env.Get(string(EnvKeyForInstallConfigName)))
    if err != nil {
      return i.addError(errors.Wrap(err, "simple installer failed"))
    }
    for _, install := range config.Spec.Install { ... }
    for _, unstruct := range allUnstructured { ... }
    return i.errors
  }
  \<close>
  The result is the returned list or the panic, together with the installer as the
  call leaves it (also when it panics) and the state of the world.
\<close>

definition Install ::
  "('w, 'u) helpers \<Rightarrow> ('w, 'u) simpleInstaller \<Rightarrow> 'w state
     \<Rightarrow> (panic + error option list) \<times> ('w, 'u) simpleInstaller \<times> 'w state" where
  "Install h i s =
     (case configGetter i of
        None \<Rightarrow>
          (case addError (Some (Errorf ''nil config getter: simple installer failed'')) i of
             (errs, i1) \<Rightarrow> (Inr errs, i1, s))
      | Some getter \<Rightarrow>
     (case invoke (ConfigGetterCall (envGet h (EnvKeyForInstallConfigName h)))
                  (getter (envGet h (EnvKeyForInstallConfigName h))) s of
        (Inl p, s1) \<Rightarrow> (Inl p, i, s1)
      | (Inr (config, err), s1) \<Rightarrow>
          if err \<noteq> None
          then (case addError (Wrap err ''simple installer failed'') i of
                  (errs, i1) \<Rightarrow> (Inr errs, i1, s1))
          else
         (case config of
            None \<Rightarrow> (Inl NilPointerDereference, i, s1)
          | Some cfg \<Rightarrow>
         (case Install_entries h (Spec_Install cfg) [] i s1 of
            (Inl p, i2, s2) \<Rightarrow> (Inl p, i2, s2)
          | (Inr allUnstructured, i2, s2) \<Rightarrow>
         (case Install_apply h allUnstructured i2 s2 of
            (Some p, i3, s3) \<Rightarrow> (Inl p, i3, s3)
          | (None, i3, s3) \<Rightarrow> (Inr (errors i3), i3, s3))))))"

text \<open>
  \<^verbatim>\<open>
  func SimpleInstaller() *simpleInstaller {
    cmGetter := k8s.NewConfigMapGetter(env.Get(string(EnvKeyForInstallConfigNamespace)))
    return &simpleInstaller{
      configGetter:   WithConfigMapConfigGetter(cmGetter),
      artifactLister: ListArtifactsByVersion,
      transformer:    TransformArtifactToUnstructuredList,
      unstructuredUpdaters: []WithInstallUnstructuredUpdater{
        updateUnstructuredNamespace,
        updateUnstructuredLabels,
        updateUnstructuredAnnotations,
      },
    }
  }
  \<close>
  The four collaborators are not among the sources studied here and are parameters.
  The error list of a new installer is the zero value, the empty list.
\<close>

definition SimpleInstaller ::
  "'w ConfigGetterFunc option \<Rightarrow> 'w VersionArtifactLister
     \<Rightarrow> 'w ArtifactToUnstructuredListTransformer \<Rightarrow> 'u list \<Rightarrow> ('w, 'u) simpleInstaller" where
  "SimpleInstaller WithConfigMapConfigGetter ListArtifactsByVersion
       TransformArtifactToUnstructuredList updaters =
     \<lparr>errors = [],
      configGetter = WithConfigMapConfigGetter,
      artifactLister = ListArtifactsByVersion,
      transformer = TransformArtifactToUnstructuredList,
      unstructuredUpdaters = updaters\<rparr>"

section \<open>Fakes: a store in memory and example collaborators\<close>

text \<open>
  The primitives of the applier and the collaborators of the installer are injected so
  that tests can replace them. The fakes below keep the stored objects in a list of
  pairs of a name and an object, with at most one pair for a name; the theorems are
  evaluated on them at concrete inputs.
\<close>

type_synonym store = "(string \<times> Unstructured) list"

definition replace :: "Unstructured \<Rightarrow> store \<Rightarrow> store" where
  "replace ob w = map (\<lambda>kv. if fst kv = name ob then (name ob, ob) else kv) w"

definition storeGetter :: "store ResourceGetter" where
  "storeGetter nm options subresources w =
     (case map_of w nm of
        None \<Rightarrow> (Inr (None, Some (StatusError StatusReasonNotFound nm)), w)
      | Some stored \<Rightarrow> (Inr (Some stored, None), w))"

definition storeCreator :: "store ResourceCreator" where
  "storeCreator obj subresources w =
     (case obj of
        None \<Rightarrow> (Inr (None, Some (Errorf ''nil resource instance'')), w)
      | Some ob \<Rightarrow>
          (case map_of w (name ob) of
             Some stored \<Rightarrow> (Inr (None, Some (StatusError StatusReasonAlreadyExists (name ob))), w)
           | None \<Rightarrow> (Inr (Some ob, None), w @ [(name ob, ob)])))"

definition storeUpdater :: "store ResourceUpdater" where
  "storeUpdater obj subresources w =
     (case obj of
        None \<Rightarrow> (Inr (None, Some (Errorf ''nil resource instance'')), w)
      | Some ob \<Rightarrow>
          (case map_of w (name ob) of
             None \<Rightarrow> (Inr (None, Some (StatusError StatusReasonNotFound (name ob))), w)
           | Some stored \<Rightarrow> (Inr (Some ob, None), replace ob w)))"

definition storeOptions :: "store ResourceApplyOptions" where
  "storeOptions =
     \<lparr>Getter = Some storeGetter, Creator = Some storeCreator, Updater = Some storeUpdater\<rparr>"

text \<open>A getter whose store does not answer, and options without a getter.\<close>

definition unavailableGetter :: "store ResourceGetter" where
  "unavailableGetter nm options subresources w =
     (Inr (None, Some (StatusError StatusReasonServerTimeout nm)), w)"

definition unavailableOptions :: "store ResourceApplyOptions" where
  "unavailableOptions =
     \<lparr>Getter = Some unavailableGetter, Creator = Some storeCreator, Updater = Some storeUpdater\<rparr>"

definition nilGetterOptions :: "store ResourceApplyOptions" where
  "nilGetterOptions = \<lparr>Getter = None, Creator = Some storeCreator, Updater = Some storeUpdater\<rparr>"

definition nilCreatorOptions :: "store ResourceApplyOptions" where
  "nilCreatorOptions = \<lparr>Getter = Some storeGetter, Creator = None, Updater = Some storeUpdater\<rparr>"

definition nilUpdaterOptions :: "store ResourceApplyOptions" where
  "nilUpdaterOptions = \<lparr>Getter = Some storeGetter, Creator = Some storeCreator, Updater = None\<rparr>"

definition exampleObject :: "string \<Rightarrow> string \<Rightarrow> Unstructured" where
  "exampleObject nm c =
     \<lparr>apiVersion = ''openebs.io/v1alpha1'', kind = ''CASTemplate'', name = nm,
      namespace = ''default'', labels = [], annotations = [], content = c\<rparr>"

definition emptyState :: "store state" where
  "emptyState = \<lparr>world = [], calls = []\<rparr>"

definition storeWith :: "Unstructured \<Rightarrow> store state" where
  "storeWith ob = \<lparr>world = [(name ob, ob)], calls = []\<rparr>"

text \<open>
  A dynamic client on the store in memory; \<open>Get\<close> times out for the names in
  \<open>down\<close>.
\<close>

definition storeDynamic :: "string list \<Rightarrow> store Dynamic" where
  "storeDynamic down =
     \<lparr>Get = (\<lambda>gvr ns nm options subresources w.
         if nm \<in> set down then ((None, Some (StatusError StatusReasonServerTimeout nm)), w)
         else (case map_of w nm of
                 None \<Rightarrow> ((None, Some (StatusError StatusReasonNotFound nm)), w)
               | Some stored \<Rightarrow> ((Some stored, None), w))),
      Create = (\<lambda>gvr ns ob subresources w.
         case map_of w (name ob) of
           Some stored \<Rightarrow> ((None, Some (StatusError StatusReasonAlreadyExists (name ob))), w)
         | None \<Rightarrow> ((Some ob, None), w @ [(name ob, ob)])),
      Update = (\<lambda>gvr ns ob subresources w.
         case map_of w (name ob) of
           None \<Rightarrow> ((None, Some (StatusError StatusReasonNotFound (name ob))), w)
         | Some stored \<Rightarrow> ((Some ob, None), replace ob w))\<rparr>"

definition storeDynamicGetter :: "string list \<Rightarrow> store DynamicGetter" where
  "storeDynamicGetter down w = ((Some (storeDynamic down), None), w)"

definition casTemplates :: GroupVersionResource where
  "casTemplates = \<lparr>Group = ''openebs.io'', Version = ''v1alpha1'', Resource = ''castemplates''\<rparr>"

text \<open>
  An installer whose configuration names the version 0.7.0, whose catalog holds three
  artifacts for it and whose transformer decodes an artifact into the object named by
  its document; one updater sets the namespace.
\<close>

type_synonym exampleUpdater = "InstallEntry \<Rightarrow> Unstructured option UnstructuredMiddleware"

definition exampleNamespaceUpdater :: "string \<Rightarrow> exampleUpdater" where
  "exampleNamespaceUpdater ns install given = Inr (map_option (\<lambda>u. u\<lparr>namespace := ns\<rparr>) given)"

definition exampleHelpers :: "string list \<Rightarrow> (store, exampleUpdater) helpers" where
  "exampleHelpers down =
     \<lparr>envGet = (\<lambda>key. ''openebs-install-config''),
      EnvKeyForInstallConfigName = ''OPENEBS_IO_INSTALL_CONFIG_NAME'',
      WithInstallUnstructuredUpdaterList = (\<lambda>install updaters. map (\<lambda>u. u install) updaters),
      GroupVersionResourceFromGVK = (\<lambda>u. casTemplates),
      NewDynamicGetter = storeDynamicGetter down\<rparr>"

definition exampleConfigGetter :: "store ConfigGetterFunc" where
  "exampleConfigGetter nm w =
     (Inr (Some \<lparr>Spec_Install = [\<lparr>Install_Version = ''0.7.0''\<rparr>]\<rparr>, None), w)"

definition failingConfigGetter :: "store ConfigGetterFunc" where
  "failingConfigGetter nm w = (Inr (None, Some (StatusError StatusReasonNotFound nm)), w)"

definition exampleArtifact :: "string \<Rightarrow> Artifact" where
  "exampleArtifact doc = \<lparr>Doc = doc, GroupVersionResource = casTemplates\<rparr>"

definition exampleArtifactLister :: "store VersionArtifactLister" where
  "exampleArtifactLister version w =
     (if version = ''0.7.0''
      then (Inr (\<lparr>Items = [Some (exampleArtifact ''a''), Some (exampleArtifact ''b''),
                             Some (exampleArtifact ''c'')]\<rparr>, None), w)
      else (Inr (\<lparr>Items = []\<rparr>, Some (Errorf ''unsupported version'')), w))"

definition exampleTransformer :: "store ArtifactToUnstructuredListTransformer" where
  "exampleTransformer list w =
     (Inr (map (map_option (\<lambda>a. exampleObject (Doc a) (Doc a))) (Items list), []), w)"

definition exampleInstaller :: "(store, exampleUpdater) simpleInstaller" where
  "exampleInstaller =
     SimpleInstaller (Some exampleConfigGetter) exampleArtifactLister exampleTransformer
       [exampleNamespaceUpdater ''openebs'']"

definition unconfiguredInstaller :: "(store, exampleUpdater) simpleInstaller" where
  "unconfiguredInstaller =
     SimpleInstaller (Some failingConfigGetter) exampleArtifactLister exampleTransformer
       [exampleNamespaceUpdater ''openebs'']"

text \<open>The objects the applier was called on, in the order of the calls.\<close>

fun applierCalls :: "call list \<Rightarrow> Unstructured option list" where
  "applierCalls [] = []"
| "applierCalls (ApplierCall obj # cs) = obj # applierCalls cs"
| "applierCalls (c # cs) = applierCalls cs"

section \<open>Properties\<close>

subsection \<open>The mutation pipeline\<close>

lemma UnstructuredUpdater_append:
  "UnstructuredUpdater (xs @ ys) given = andThen (UnstructuredUpdater xs given) (UnstructuredUpdater ys)"
  by (induction xs arbitrary: given) (simp_all add: andThen_def split: sum.splits)

lemma UnstructuredUpdater_total:
  "UnstructuredUpdater (map pureMiddleware fs) given = Inr (foldl (\<lambda>g f. f g) given fs)"
  by (induction fs arbitrary: given) (simp_all add: pureMiddleware_def)

text \<open>
  C9: \<open>UnstructuredUpdater\<close> applies the middlewares in list order (the empty list
  returns the object as given, a list \<open>u # us\<close> calls \<open>u\<close> first and runs \<open>us\<close> on
  what \<open>u\<close> returns), and it is a list homomorphism: the pipeline of \<open>xs @ ys\<close> is the
  pipeline of \<open>ys\<close> called on the result of the pipeline of \<open>xs\<close>. A composed
  pipeline is again a middleware, and the pipeline of two pipelines is the pipeline
  of the concatenated list.
\<close>

theorem UnstructuredUpdater_homomorphism:
  "UnstructuredUpdater [] given = Inr given
   \<and> UnstructuredUpdater (u # us) given = andThen (u given) (UnstructuredUpdater us)
   \<and> UnstructuredUpdater (xs @ ys) given
       = andThen (UnstructuredUpdater xs given) (UnstructuredUpdater ys)
   \<and> UnstructuredUpdater [UnstructuredUpdater xs, UnstructuredUpdater ys] given
       = UnstructuredUpdater (xs @ ys) given
   \<and> UnstructuredUpdater (map pureMiddleware fs @ map pureMiddleware gs) given
       = Inr (foldl (\<lambda>g f. f g) (foldl (\<lambda>g f. f g) given fs) gs)"
proof -
  have nested: "UnstructuredUpdater [UnstructuredUpdater xs, UnstructuredUpdater ys] given
      = UnstructuredUpdater (xs @ ys) given"
    by (simp add: UnstructuredUpdater_append andThen_def split: sum.splits)
  have flat: "UnstructuredUpdater (map pureMiddleware fs @ map pureMiddleware gs) given
      = Inr (foldl (\<lambda>g f. f g) (foldl (\<lambda>g f. f g) given fs) gs)"
    by (simp add: UnstructuredUpdater_append UnstructuredUpdater_total andThen_def)
  show ?thesis
    using nested flat by (simp add: UnstructuredUpdater_append andThen_def)
qed

subsection \<open>Evaluation of the model and of the fakes\<close>

lemmas applier_defs = newResourceApplier_def invoke_def Wrapf_def IsNotFound_def quoted_def
  emptyGetOptions_def

lemmas cluster_defs = NewResourceApplier_def NewResourceGetter_def NewResourceCreator_def
  NewResourceUpdater_def

lemmas store_defs = replace_def storeOptions_def storeGetter_def storeCreator_def storeUpdater_def
  unavailableOptions_def unavailableGetter_def nilGetterOptions_def nilCreatorOptions_def
  nilUpdaterOptions_def exampleObject_def emptyState_def storeWith_def

lemmas example_defs = exampleHelpers_def exampleInstaller_def unconfiguredInstaller_def
  SimpleInstaller_def exampleConfigGetter_def failingConfigGetter_def exampleArtifactLister_def
  exampleTransformer_def exampleArtifact_def exampleNamespaceUpdater_def storeDynamicGetter_def
  storeDynamic_def casTemplates_def exampleObject_def emptyState_def

lemmas trim_defs = TrimSpace_def TrimLeftSpace_def TrimRightSpace_def spaceRunes_def

subsection \<open>The resource applier\<close>

text \<open>
  Whatever the primitives do, one call of the applier makes no call, or the call of
  the getter alone, or the call of the getter followed by the call of the creator.
  The updater is not called.
\<close>

lemma newResourceApplier_calls:
  "calls (snd (newResourceApplier options obj subresources s)) = calls s
   \<or> (\<exists>ob. obj = Some ob \<and>
        (calls (snd (newResourceApplier options obj subresources s))
           = calls s @ [GetterCall (name ob) emptyGetOptions []]
         \<or> calls (snd (newResourceApplier options obj subresources s))
           = calls s @ [GetterCall (name ob) emptyGetOptions [], CreatorCall obj subresources]))"
  by (auto simp add: newResourceApplier_def invoke_def split: option.splits prod.splits sum.splits)

lemma apply_found_returns_get:
  assumes "Getter options = Some getter" and "Creator options = Some creator"
    and "Updater options = Some updater"
    and "getter (name ob) emptyGetOptions [] (world s) = (Inr (resource, None), w1)"
  shows "newResourceApplier options (Some ob) subresources s
           = (Inr (resource, None),
              \<lparr>world = w1, calls = calls s @ [GetterCall (name ob) emptyGetOptions []]\<rparr>)"
  using assms by (simp add: newResourceApplier_def invoke_def Wrapf_def IsNotFound_def)

text \<open>
  C1: the found path. The claim asks that \<open>update\<close> be called once with the object
  and that its result be returned. Evaluated on the store that holds the object
  \<open>a\<close> with the content \<open>old\<close>, the applier called on \<open>a\<close> with the content
  \<open>new\<close> calls the getter and nothing else, returns the stored object and no
  error, and leaves the store as it was: the updater is not called.
\<close>

theorem apply_found_skips_update:
  "storeGetter ''a'' emptyGetOptions [] (world (storeWith (exampleObject ''a'' ''old'')))
     = (Inr (Some (exampleObject ''a'' ''old''), None), world (storeWith (exampleObject ''a'' ''old'')))
   \<and> newResourceApplier storeOptions (Some (exampleObject ''a'' ''new'')) []
         (storeWith (exampleObject ''a'' ''old''))
     = (Inr (Some (exampleObject ''a'' ''old''), None),
        \<lparr>world = [(''a'', exampleObject ''a'' ''old'')],
         calls = [GetterCall ''a'' emptyGetOptions []]\<rparr>)
   \<and> fst (storeUpdater (Some (exampleObject ''a'' ''new'')) []
             (world (storeWith (exampleObject ''a'' ''old''))))
     = Inr (Some (exampleObject ''a'' ''new''), None)"
  by (simp add: applier_defs store_defs)

text \<open>
  C3, as amended: when the getter returns an error that is not a not-found error, the
  applier calls neither the creator nor the updater (the getter's call is the only
  one) and returns, with the resource the getter returned, the getter's error
  wrapped by \<open>errors.Wrapf\<close> under the message \<open>failed to apply resource '<name>'\<close>.
\<close>

theorem apply_get_error_wrapped:
  assumes "Getter options = Some getter" and "Creator options = Some creator"
    and "Updater options = Some updater"
    and "getter (name ob) emptyGetOptions [] (world s) = (Inr (resource, Some e), w1)"
    and "\<not> IsNotFound (Some e)"
  shows "newResourceApplier options (Some ob) subresources s
           = (Inr (resource, Some (Wrapped e (quoted ''failed to apply resource '' (name ob)))),
              \<lparr>world = w1, calls = calls s @ [GetterCall (name ob) emptyGetOptions []]\<rparr>)"
  using assms by (simp add: newResourceApplier_def invoke_def Wrapf_def)

theorem apply_get_error_wrapped_witness:
  "newResourceApplier unavailableOptions (Some (exampleObject ''a'' ''new'')) [] emptyState
     = (Inr (None, Some (Wrapped (StatusError StatusReasonServerTimeout ''a'')
                           (quoted ''failed to apply resource '' ''a''))),
        \<lparr>world = [], calls = [GetterCall ''a'' emptyGetOptions []]\<rparr>)"
proof -
  have g: "Getter unavailableOptions = Some unavailableGetter"
    and c: "Creator unavailableOptions = Some storeCreator"
    and u: "Updater unavailableOptions = Some storeUpdater"
    by (simp_all add: unavailableOptions_def)
  have get: "unavailableGetter (name (exampleObject ''a'' ''new'')) emptyGetOptions []
        (world emptyState) = (Inr (None, Some (StatusError StatusReasonServerTimeout ''a'')), [])"
    by (simp add: store_defs)
  have nf: "\<not> IsNotFound (Some (StatusError StatusReasonServerTimeout ''a''))"
    by (simp add: IsNotFound_def)
  show ?thesis
    using apply_get_error_wrapped [OF g c u get nf, of "[]"] by (simp add: store_defs)
qed

text \<open>
  The claim as stated, that the getter's error is returned unchanged, fails: the error
  the applier returns is not the error the getter returned.
\<close>

theorem apply_get_error_unchanged_counterexample:
  "unavailableGetter ''a'' emptyGetOptions [] (world emptyState)
     = (Inr (None, Some (StatusError StatusReasonServerTimeout ''a'')), world emptyState)
   \<and> \<not> IsNotFound (Some (StatusError StatusReasonServerTimeout ''a''))
   \<and> fst (newResourceApplier unavailableOptions (Some (exampleObject ''a'' ''new'')) [] emptyState)
     \<noteq> Inr (None, Some (StatusError StatusReasonServerTimeout ''a''))"
  by (simp add: applier_defs store_defs)

text \<open>
  C5: the not-found path. When the getter returns a not-found error, the applier calls
  the creator once, with the given object and subresources, after the getter's call;
  these are its only calls, so the updater is not called, and the applier returns
  what the creator returns.
\<close>

theorem apply_not_found_creates:
  assumes "Getter options = Some getter" and "Creator options = Some creator"
    and "Updater options = Some updater"
    and "getter (name ob) emptyGetOptions [] (world s) = (Inr (resource, err), w1)"
    and "IsNotFound err"
    and "creator (Some ob) subresources w1 = (r, w2)"
  shows "newResourceApplier options (Some ob) subresources s
           = (r, \<lparr>world = w2,
                  calls = calls s @ [GetterCall (name ob) emptyGetOptions [],
                                     CreatorCall (Some ob) subresources]\<rparr>)"
  using assms by (simp add: newResourceApplier_def invoke_def)

theorem apply_not_found_creates_witness:
  "newResourceApplier storeOptions (Some (exampleObject ''a'' ''new'')) [] emptyState
     = (Inr (Some (exampleObject ''a'' ''new''), None),
        \<lparr>world = [(''a'', exampleObject ''a'' ''new'')],
         calls = [GetterCall ''a'' emptyGetOptions [],
                  CreatorCall (Some (exampleObject ''a'' ''new'')) []]\<rparr>)"
proof -
  have g: "Getter storeOptions = Some storeGetter"
    and c: "Creator storeOptions = Some storeCreator"
    and u: "Updater storeOptions = Some storeUpdater"
    by (simp_all add: storeOptions_def)
  have get: "storeGetter (name (exampleObject ''a'' ''new'')) emptyGetOptions [] (world emptyState)
      = (Inr (None, Some (StatusError StatusReasonNotFound ''a'')), [])"
    by (simp add: store_defs)
  have nf: "IsNotFound (Some (StatusError StatusReasonNotFound ''a''))"
    by (simp add: IsNotFound_def)
  have cr: "storeCreator (Some (exampleObject ''a'' ''new'')) [] []
      = (Inr (Some (exampleObject ''a'' ''new''), None), [(''a'', exampleObject ''a'' ''new'')])"
    by (simp add: store_defs)
  show ?thesis
    using apply_not_found_creates [OF g c u get nf cr] by (simp add: store_defs)
qed

text \<open>
  C7, as amended: a missing primitive is not detected when the applier is built.
  \<open>newResourceApplier\<close> returns an applier for every options value, and every call
  of an applier built from options with a \<open>nil\<close> getter, creator or updater returns
  no resource and the error that names the first missing primitive, for every object
  and in every state, without calling a primitive.
\<close>

theorem nil_primitive_fails_every_apply:
  "(Getter options = None \<longrightarrow>
      newResourceApplier options obj subresources s
        = (Inr (None, Some (Errorf ''nil resource getter instance: failed to apply resource'')), s))
   \<and> (Getter options \<noteq> None \<and> Creator options = None \<longrightarrow>
      newResourceApplier options obj subresources s
        = (Inr (None, Some (Errorf ''nil resource creator instance: failed to apply resource'')), s))
   \<and> (Getter options \<noteq> None \<and> Creator options \<noteq> None \<and> Updater options = None \<longrightarrow>
      newResourceApplier options obj subresources s
        = (Inr (None, Some (Errorf ''nil resource updater instance: failed to apply resource'')), s))"
  by (auto simp add: newResourceApplier_def)

theorem nil_primitive_fails_every_apply_witness:
  "Getter nilCreatorOptions \<noteq> None \<and> Creator nilCreatorOptions = None
   \<and> newResourceApplier nilCreatorOptions (Some (exampleObject ''a'' ''new'')) [] emptyState
     = (Inr (None, Some (Errorf ''nil resource creator instance: failed to apply resource'')),
        emptyState)
   \<and> Getter nilUpdaterOptions \<noteq> None \<and> Creator nilUpdaterOptions \<noteq> None
   \<and> Updater nilUpdaterOptions = None
   \<and> newResourceApplier nilUpdaterOptions None [''status''] emptyState
     = (Inr (None, Some (Errorf ''nil resource updater instance: failed to apply resource'')),
        emptyState)
   \<and> Getter nilGetterOptions = None
   \<and> newResourceApplier nilGetterOptions (Some (exampleObject ''b'' ''new'')) [] emptyState
     = (Inr (None, Some (Errorf ''nil resource getter instance: failed to apply resource'')),
        emptyState)"
proof -
  have g: "Getter nilGetterOptions = None" by (simp add: nilGetterOptions_def)
  have c: "Getter nilCreatorOptions \<noteq> None \<and> Creator nilCreatorOptions = None"
    by (simp add: nilCreatorOptions_def)
  have u: "Getter nilUpdaterOptions \<noteq> None \<and> Creator nilUpdaterOptions \<noteq> None
      \<and> Updater nilUpdaterOptions = None"
    by (simp add: nilUpdaterOptions_def)
  show ?thesis
    using g c u
      nil_primitive_fails_every_apply [of nilGetterOptions "Some (exampleObject ''b'' ''new'')" "[]" emptyState]
      nil_primitive_fails_every_apply [of nilCreatorOptions "Some (exampleObject ''a'' ''new'')" "[]" emptyState]
      nil_primitive_fails_every_apply [of nilUpdaterOptions None "[''status'']" emptyState]
    by simp
qed

text \<open>
  The claim as stated, that the missing primitive is an error of the construction and
  not of the apply call, fails: the applier built from options without a getter
  exists, and it is its call, on a well-formed object, that returns the error.
\<close>

theorem nil_primitive_detected_eagerly_counterexample:
  "Getter nilGetterOptions = None
   \<and> newResourceApplier nilGetterOptions (Some (exampleObject ''a'' ''new'')) [] emptyState
     = (Inr (None, Some (Errorf ''nil resource getter instance: failed to apply resource'')),
        emptyState)"
  by (simp add: newResourceApplier_def nilGetterOptions_def)

subsection \<open>Blank names\<close>

lemma spaceWidth_runes: "\<forall>r\<in>set spaceRunes. spaceWidth spaceRunes (r @ rest) = length r"
  by (simp add: spaceRunes_def)

lemma spaceRunes_nonempty: "\<forall>r\<in>set spaceRunes. 1 \<le> length r"
  by (simp add: spaceRunes_def)

lemma trimLeft_Nil: "trimLeft rs n [] = []"
  by (induction n) simp_all

lemma trimLeft_spaces:
  "set ws \<subseteq> set spaceRunes \<Longrightarrow> length ws \<le> n \<Longrightarrow> trimLeft spaceRunes n (concat ws) = []"
proof (induction ws arbitrary: n)
  case Nil
  then show ?case by (simp add: trimLeft_Nil)
next
  case (Cons r ws)
  then obtain m where n: "n = Suc m" and m: "length ws \<le> m" by (cases n) auto
  from Cons.prems have r: "r \<in> set spaceRunes" and ws: "set ws \<subseteq> set spaceRunes" by auto
  have w: "spaceWidth spaceRunes (r @ concat ws) = length r" using spaceWidth_runes r by blast
  have "1 \<le> length r" using spaceRunes_nonempty r by blast
  then have "r \<noteq> []" by auto
  then show ?case using Cons.IH [OF ws m] w by (simp add: n)
qed

lemma length_concat_spaces:
  "set ws \<subseteq> set spaceRunes \<Longrightarrow> length ws \<le> length (concat ws)"
proof (induction ws)
  case Nil
  then show ?case by simp
next
  case (Cons r ws)
  then have "1 \<le> length r" using spaceRunes_nonempty by auto
  with Cons show ?case by simp
qed

text \<open>A string made of white space only is trimmed to the empty string.\<close>

lemma TrimSpace_spaces:
  "set ws \<subseteq> set spaceRunes \<Longrightarrow> TrimSpace (concat ws) = []"
  by (simp add: TrimSpace_def TrimLeftSpace_def TrimRightSpace_def trimLeft_spaces
      length_concat_spaces trimLeft_Nil)

text \<open>
  C8: invalid input is rejected with an error. Called on \<open>nil\<close>, an applier built by
  \<open>newResourceApplier\<close> from any options returns an error and makes no call, and the
  applier of \<open>NewResourceApplier\<close> returns the error \<open>nil resource instance\<close>.
  Called on an object whose name is empty or made of white space only (a
  concatenation of encoded white-space code points), the applier of
  \<open>NewResourceApplier\<close> returns the getter's error \<open>missing resource name\<close>,
  wrapped; the getter's call is its only call, so neither the creator nor the
  updater is called, and the world is as before.
\<close>

theorem applier_rejects_invalid_input:
  "(\<exists>e. newResourceApplier options None subresources s = (Inr (None, Some e), s))
   \<and> NewResourceApplier dg gvr ns None subresources s
       = (Inr (None, Some (Errorf ''nil resource instance: failed to apply resource'')), s)
   \<and> (set ws \<subseteq> set spaceRunes \<and> name ob = concat ws \<longrightarrow>
        NewResourceApplier dg gvr ns (Some ob) subresources s
          = (Inr (None, Some (Wrapped (Errorf ''missing resource name: failed to get resource'')
                                (quoted ''failed to apply resource '' (name ob)))),
             \<lparr>world = world s, calls = calls s @ [GetterCall (name ob) emptyGetOptions []]\<rparr>))"
proof -
  have a: "\<exists>e. newResourceApplier options None subresources s = (Inr (None, Some e), s)"
    by (simp add: newResourceApplier_def split: option.splits)
  have b: "NewResourceApplier dg gvr ns None subresources s
       = (Inr (None, Some (Errorf ''nil resource instance: failed to apply resource'')), s)"
    by (simp add: NewResourceApplier_def newResourceApplier_def)
  have c: "NewResourceApplier dg gvr ns (Some ob) subresources s
          = (Inr (None, Some (Wrapped (Errorf ''missing resource name: failed to get resource'')
                                (quoted ''failed to apply resource '' (name ob)))),
             \<lparr>world = world s, calls = calls s @ [GetterCall (name ob) emptyGetOptions []]\<rparr>)"
    if "set ws \<subseteq> set spaceRunes" "name ob = concat ws"
    using TrimSpace_spaces [OF that(1)] that(2)
    by (simp add: NewResourceApplier_def newResourceApplier_def NewResourceGetter_def invoke_def
        Wrapf_def IsNotFound_def)
  show ?thesis using a b c by blast
qed

theorem applier_rejects_invalid_input_witness:
  "set [[CHR 0x20], [CHR 0xC2, CHR 0xA0], [CHR 0x09]] \<subseteq> set spaceRunes
   \<and> name (exampleObject [CHR 0x20, CHR 0xC2, CHR 0xA0, CHR 0x09] ''new'')
       = concat [[CHR 0x20], [CHR 0xC2, CHR 0xA0], [CHR 0x09]]
   \<and> NewResourceApplier (storeDynamicGetter []) casTemplates ''openebs''
        (Some (exampleObject [CHR 0x20, CHR 0xC2, CHR 0xA0, CHR 0x09] ''new'')) [] emptyState
       = (Inr (None, Some (Wrapped (Errorf ''missing resource name: failed to get resource'')
               (quoted ''failed to apply resource '' [CHR 0x20, CHR 0xC2, CHR 0xA0, CHR 0x09]))),
          \<lparr>world = [],
           calls = [GetterCall [CHR 0x20, CHR 0xC2, CHR 0xA0, CHR 0x09] emptyGetOptions []]\<rparr>)
   \<and> NewResourceApplier (storeDynamicGetter []) casTemplates ''openebs'' None [] emptyState
       = (Inr (None, Some (Errorf ''nil resource instance: failed to apply resource'')), emptyState)"
proof -
  have ws: "set [[CHR 0x20], [CHR 0xC2, CHR 0xA0], [CHR 0x09]] \<subseteq> set spaceRunes"
    by (simp add: spaceRunes_def)
  have nm: "name (exampleObject [CHR 0x20, CHR 0xC2, CHR 0xA0, CHR 0x09] ''new'')
       = concat [[CHR 0x20], [CHR 0xC2, CHR 0xA0], [CHR 0x09]]"
    by (simp add: exampleObject_def)
  from applier_rejects_invalid_input
    [of storeOptions "[]" emptyState "storeDynamicGetter []" casTemplates "''openebs''"
        "[[CHR 0x20], [CHR 0xC2, CHR 0xA0], [CHR 0x09]]"
        "exampleObject [CHR 0x20, CHR 0xC2, CHR 0xA0, CHR 0x09] ''new''"]
  have "NewResourceApplier (storeDynamicGetter []) casTemplates ''openebs'' None [] emptyState
       = (Inr (None, Some (Errorf ''nil resource instance: failed to apply resource'')), emptyState)"
    and "NewResourceApplier (storeDynamicGetter []) casTemplates ''openebs''
        (Some (exampleObject [CHR 0x20, CHR 0xC2, CHR 0xA0, CHR 0x09] ''new'')) [] emptyState
       = (Inr (None, Some (Wrapped (Errorf ''missing resource name: failed to get resource'')
               (quoted ''failed to apply resource ''
                  (name (exampleObject [CHR 0x20, CHR 0xC2, CHR 0xA0, CHR 0x09] ''new''))))),
          \<lparr>world = world emptyState,
           calls = calls emptyState
             @ [GetterCall (name (exampleObject [CHR 0x20, CHR 0xC2, CHR 0xA0, CHR 0x09] ''new''))
                  emptyGetOptions []]\<rparr>)"
    using ws nm by blast+
  then show ?thesis using ws nm by (simp add: exampleObject_def emptyState_def)
qed

subsection \<open>Applying twice\<close>



subsection \<open>The installer\<close>

lemma errors_addError: "errors (snd (addError err i)) = errors i @ [err]"
  by (simp add: addError_def)

lemma errors_addErrors: "errors (snd (addErrors errs i)) = errors i @ errs"
  by (induction errs arbitrary: i) (simp_all add: errors_addError)

lemma Install_entries_prefix:
  "Install_entries h installs allUnstructured i s = (r, i', s') \<Longrightarrow> prefix (errors i) (errors i')"
proof (induction installs arbitrary: allUnstructured i s)
  case Nil
  then show ?case by simp
next
  case (Cons install installs)
  have step: "\<And>j a t. Install_entries h installs a j t = (r, i', s') \<Longrightarrow> prefix (errors i) (errors j)
      \<Longrightarrow> prefix (errors i) (errors i')"
    using Cons.IH prefix_order.trans by blast
  from Cons.prems show ?case
    by (auto simp add: Let_def errors_addError errors_addErrors
        split: prod.splits sum.splits if_splits intro: step)
qed

text \<open>
  The loop that applies the instances appends one entry to the error list for each
  instance it applies, whether the apply returned an error or \<open>nil\<close>.
\<close>

lemma Install_apply_errors:
  "Install_apply h unstructs i s = (r, i', s')
     \<Longrightarrow> \<exists>errs. errors i' = errors i @ errs \<and> (r = None \<longrightarrow> length errs = length unstructs)"
proof (induction unstructs arbitrary: i s)
  case Nil
  then show ?case by simp
next
  case (Cons unstruct rest)
  show ?case
  proof (cases unstruct)
    case None
    with Cons.prems show ?thesis by auto
  next
    case (Some u)
    let ?s = "s\<lparr>calls := calls s @ [ApplierCall unstruct]\<rparr>"
    obtain a s1 where a: "NewResourceApplier (NewDynamicGetter h) (GroupVersionResourceFromGVK h u)
        (namespace u) unstruct [] ?s = (a, s1)" by (cases "NewResourceApplier (NewDynamicGetter h)
        (GroupVersionResourceFromGVK h u) (namespace u) unstruct [] ?s")
    show ?thesis
    proof (cases a)
      case (Inl p)
      with Cons.prems Some a show ?thesis by auto
    next
      case (Inr re)
      obtain resource err where re: "re = (resource, err)" by (cases re)
      from Cons.prems Some a Inr re
      have "Install_apply h rest (snd (addError err i)) s1 = (r, i', s')" by simp
      from Cons.IH [OF this] show ?thesis by (auto simp add: errors_addError)
    qed
  qed
qed

lemma Install_returns_errors:
  "Install h i s = (Inr errs, i', s') \<Longrightarrow> errs = errors i'"
  by (auto simp add: Install_def addError_def
      split: option.splits prod.splits sum.splits if_splits)

lemma Install_prefix:
  assumes "Install h i s = (r, i', s')"
  shows "prefix (errors i) (errors i')"
proof (cases "configGetter i")
  case None
  with assms show ?thesis by (auto simp add: Install_def addError_def)
next
  case (Some getter)
  obtain c s1 where c: "invoke (ConfigGetterCall (envGet h (EnvKeyForInstallConfigName h)))
          (getter (envGet h (EnvKeyForInstallConfigName h))) s = (c, s1)"
    by (cases "invoke (ConfigGetterCall (envGet h (EnvKeyForInstallConfigName h)))
          (getter (envGet h (EnvKeyForInstallConfigName h))) s")
  show ?thesis
  proof (cases c)
    case (Inl p)
    with assms Some c show ?thesis by (simp add: Install_def)
  next
    case (Inr ce)
    obtain config err where ce: "ce = (config, err)" by (cases ce)
    show ?thesis
    proof (cases "err \<noteq> None")
      case True
      with assms Some c Inr ce show ?thesis by (auto simp add: Install_def addError_def)
    next
      case False
      show ?thesis
      proof (cases config)
        case None
        with assms Some c Inr ce False show ?thesis by (simp add: Install_def)
      next
        case cfg: (Some cfg)
        obtain r2 i2 s2 where e: "Install_entries h (Spec_Install cfg) [] i s1 = (r2, i2, s2)"
          by (cases "Install_entries h (Spec_Install cfg) [] i s1")
        have p2: "prefix (errors i) (errors i2)" by (rule Install_entries_prefix [OF e])
        show ?thesis
        proof (cases r2)
          case (Inl p)
          with assms Some c Inr ce False cfg e p2 show ?thesis by (simp add: Install_def)
        next
          case all: (Inr allUnstructured)
          obtain r3 i3 s3 where a: "Install_apply h allUnstructured i2 s2 = (r3, i3, s3)"
            by (cases "Install_apply h allUnstructured i2 s2")
          from Install_apply_errors [OF a] have "prefix (errors i2) (errors i3)" by auto
          with p2 have "prefix (errors i) (errors i3)" by (rule prefix_order.trans)
          moreover from assms Some c Inr ce False cfg e all a have "i' = i3"
            by (cases r3) (simp_all add: Install_def)
          ultimately show ?thesis by simp
        qed
      qed
    qed
  qed
qed

lemmas install_eval = Install_def invoke_def addError_def Wrapf_def quoted_def IsNotFound_def
  cluster_defs newResourceApplier_def emptyGetOptions_def example_defs replace_def trim_defs

text \<open>
  C2: the aggregation of the apply outcomes. The claim asks for one entry for each
  failed apply and none for a successful one. Evaluated on the installer whose three
  objects \<open>a\<close>, \<open>b\<close> and \<open>c\<close> are applied to a store that times out for \<open>b\<close>,
  \<open>Install\<close> calls the applier on the three objects and returns a list of three
  entries, \<open>nil\<close> for \<open>a\<close> and for \<open>c\<close>; on a store that answers for all three
  it returns three \<open>nil\<close> entries and not the empty list.
\<close>

theorem Install_adds_nil_for_successful_apply:
  "fst (Install (exampleHelpers [''b'']) exampleInstaller emptyState)
     = Inr [None,
            Some (Wrapped (StatusError StatusReasonServerTimeout ''b'')
                    (quoted ''failed to apply resource '' ''b'')),
            None]
   \<and> applierCalls (calls (snd (snd (Install (exampleHelpers [''b'']) exampleInstaller emptyState))))
     = [Some ((exampleObject ''a'' ''a'')\<lparr>namespace := ''openebs''\<rparr>),
        Some ((exampleObject ''b'' ''b'')\<lparr>namespace := ''openebs''\<rparr>),
        Some ((exampleObject ''c'' ''c'')\<lparr>namespace := ''openebs''\<rparr>)]
   \<and> fst (Install (exampleHelpers []) exampleInstaller emptyState) = Inr [None, None, None]"
  by (simp add: install_eval)

text \<open>
  C6, as amended: when the configuration getter returns an error, \<open>Install\<close> appends one
  error, which wraps that error, to the error list the installer has accumulated and
  returns the list; on an installer that has accumulated no error, as a new one, that
  is a list of one element. It stops there: the call of the configuration getter is
  its only call, so no artifact is listed, transformed or updated and nothing is
  applied.
\<close>

theorem Install_config_error:
  assumes "configGetter i = Some getter"
    and "getter (envGet h (EnvKeyForInstallConfigName h)) (world s) = (Inr (config, Some e), w1)"
  shows "Install h i s
           = (Inr (errors i @ [Some (Wrapped e ''simple installer failed'')]),
              i\<lparr>errors := errors i @ [Some (Wrapped e ''simple installer failed'')]\<rparr>,
              \<lparr>world = w1,
               calls = calls s @ [ConfigGetterCall (envGet h (EnvKeyForInstallConfigName h))]\<rparr>)
         \<and> (errors i = [] \<longrightarrow>
              fst (Install h i s) = Inr [Some (Wrapped e ''simple installer failed'')])"
  using assms by (simp add: Install_def invoke_def addError_def)

theorem Install_config_error_witness:
  "errors unconfiguredInstaller = []
   \<and> fst (Install (exampleHelpers []) unconfiguredInstaller emptyState)
       = Inr [Some (Wrapped (StatusError StatusReasonNotFound ''openebs-install-config'')
                      ''simple installer failed'')]
   \<and> snd (snd (Install (exampleHelpers []) unconfiguredInstaller emptyState))
       = \<lparr>world = [], calls = [ConfigGetterCall ''openebs-install-config'']\<rparr>"
proof -
  have g: "configGetter unconfiguredInstaller = Some failingConfigGetter"
    by (simp add: unconfiguredInstaller_def SimpleInstaller_def)
  have e: "failingConfigGetter
             (envGet (exampleHelpers []) (EnvKeyForInstallConfigName (exampleHelpers [])))
             (world emptyState)
           = (Inr (None, Some (StatusError StatusReasonNotFound ''openebs-install-config'')), [])"
    by (simp add: failingConfigGetter_def exampleHelpers_def emptyState_def)
  have fresh: "errors unconfiguredInstaller = []"
    by (simp add: unconfiguredInstaller_def SimpleInstaller_def)
  show ?thesis
    using Install_config_error [OF g e] fresh
    by (simp add: exampleHelpers_def emptyState_def)
qed

text \<open>
  The claim as stated, that the returned list has a single element, fails on an
  installer that has accumulated errors: the second of two calls of \<open>Install\<close> on
  the same installer, with a configuration getter that fails both times, returns two
  elements.
\<close>

theorem Install_config_error_single_counterexample:
  "fst (Install (exampleHelpers [])
          (fst (snd (Install (exampleHelpers []) unconfiguredInstaller emptyState))) emptyState)
     = Inr [Some (Wrapped (StatusError StatusReasonNotFound ''openebs-install-config'')
                    ''simple installer failed''),
            Some (Wrapped (StatusError StatusReasonNotFound ''openebs-install-config'')
                    ''simple installer failed'')]"
  by (simp add: install_eval)

text \<open>
  C10: the error list is accumulated on the installer. \<open>addError\<close> and \<open>addErrors\<close>
  append to the field \<open>errors\<close>; a call of \<open>Install\<close>, whether it returns or panics,
  leaves an installer whose error list extends the one it found; the list
  \<open>Install\<close> returns is that field. So the list a second call on the same
  installer returns has the list the first call returned as a prefix, whatever the
  state of the world at the second call.
\<close>

theorem Install_accumulates_errors:
  assumes "Install h i s = (r1, i1, s1)" and "Install h' i1 s' = (r2, i2, s2)"
  shows "errors (snd (addError err i)) = errors i @ [err]
       \<and> errors (snd (addErrors errs i)) = errors i @ errs
       \<and> prefix (errors i) (errors i1) \<and> prefix (errors i1) (errors i2)
       \<and> (r1 = Inr errs1 \<longrightarrow> errs1 = errors i1)
       \<and> (r2 = Inr errs2 \<longrightarrow> errs2 = errors i2)
       \<and> (r1 = Inr errs1 \<and> r2 = Inr errs2 \<longrightarrow> prefix errs1 errs2)"
proof -
  have p1: "prefix (errors i) (errors i1)" by (rule Install_prefix [OF assms(1)])
  have p2: "prefix (errors i1) (errors i2)" by (rule Install_prefix [OF assms(2)])
  have e1: "errs1 = errors i1" if "r1 = Inr errs1"
    using assms(1) that by (auto dest: Install_returns_errors)
  have e2: "errs2 = errors i2" if "r2 = Inr errs2"
    using assms(2) that by (auto dest: Install_returns_errors)
  show ?thesis using p1 p2 e1 e2 by (auto simp add: errors_addError errors_addErrors)
qed

theorem Install_accumulates_errors_witness:
  "fst (Install (exampleHelpers [''b'']) exampleInstaller emptyState)
     = Inr [None,
            Some (Wrapped (StatusError StatusReasonServerTimeout ''b'')
                    (quoted ''failed to apply resource '' ''b'')),
            None]
   \<and> fst (Install (exampleHelpers [''b''])
            (fst (snd (Install (exampleHelpers [''b'']) exampleInstaller emptyState)))
            (snd (snd (Install (exampleHelpers [''b'']) exampleInstaller emptyState))))
     = Inr [None,
            Some (Wrapped (StatusError StatusReasonServerTimeout ''b'')
                    (quoted ''failed to apply resource '' ''b'')),
            None,
            None,
            Some (Wrapped (StatusError StatusReasonServerTimeout ''b'')
                    (quoted ''failed to apply resource '' ''b'')),
            None]
   \<and> prefix
        [None,
         Some (Wrapped (StatusError StatusReasonServerTimeout ''b'')
                 (quoted ''failed to apply resource '' ''b'')),
         None]
        [None,
         Some (Wrapped (StatusError StatusReasonServerTimeout ''b'')
                 (quoted ''failed to apply resource '' ''b'')),
         None,
         None,
         Some (Wrapped (StatusError StatusReasonServerTimeout ''b'')
                 (quoted ''failed to apply resource '' ''b'')),
         None]"
proof -
  let ?h = "exampleHelpers [''b'']"
  let ?first = "Install ?h exampleInstaller emptyState"
  let ?second = "Install ?h (fst (snd ?first)) (snd (snd ?first))"
  let ?l1 = "[None,
         Some (Wrapped (StatusError StatusReasonServerTimeout ''b'')
                 (quoted ''failed to apply resource '' ''b'')),
         None]"
  have first: "?first = (fst ?first, fst (snd ?first), snd (snd ?first))" by simp
  have second: "?second = (fst ?second, fst (snd ?second), snd (snd ?second))" by simp
  have r1: "fst ?first = Inr ?l1" by (simp add: install_eval)
  have r2: "fst ?second = Inr (?l1 @ ?l1)" by (simp add: install_eval)
  from Install_accumulates_errors [OF first second, of _ _ ?l1 "?l1 @ ?l1"] r1 r2
  have "prefix ?l1 (?l1 @ ?l1)" by blast
  with r1 r2 show ?thesis by simp
qed

end
